theory Spec2Isabelle
  imports Main "HOL-Library.Sublist"
begin

section \<open>Python values\<close>

text \<open>
  A Python \<open>str\<close> is a sequence of Unicode code points: slicing, \<open>len\<close>, \<open>strip\<close> and
  the \<open>re\<close> module all count code points. A string is therefore a list of code points
  (natural numbers); \<open>ascii ''abc''\<close> is the string of an ASCII literal.
\<close>

type_synonym codepoint = nat
type_synonym pystr = "codepoint list"

abbreviation (input) cp :: "char \<Rightarrow> codepoint" where
  "cp c \<equiv> of_char c"

abbreviation (input) ascii :: "string \<Rightarrow> pystr" where
  "ascii s \<equiv> map of_char s"

text \<open>The exceptions that the modelled code can raise.\<close>

datatype py_error = TypeError | OverflowError | ValueError | OSError | AttributeError

text \<open>
  \<open>str.isspace\<close> on one code point; \<open>str.strip()\<close> and the pattern \<open>\s\<close> of \<open>re\<close>
  (on \<open>str\<close> patterns) use the same table.
\<close>

definition isspace :: "codepoint \<Rightarrow> bool" where
  "isspace c \<longleftrightarrow>
     (9 \<le> c \<and> c \<le> 13) \<or> (28 \<le> c \<and> c \<le> 32) \<or> c = 133 \<or> c = 160 \<or> c = 5760 \<or>
     (8192 \<le> c \<and> c \<le> 8202) \<or> c = 8232 \<or> c = 8233 \<or> c = 8239 \<or> c = 8287 \<or> c = 12288"

definition is_ascii_digit :: "codepoint \<Rightarrow> bool" where
  "is_ascii_digit c \<longleftrightarrow> 48 \<le> c \<and> c \<le> 57"

subsection \<open>Formatting integers: \<open>str(n)\<close> and \<open>"%0wd" % n\<close>\<close>

function decimal :: "nat \<Rightarrow> pystr" where
  "decimal n = (if n < 10 then [48 + n] else decimal (n div 10) @ [48 + n mod 10])"
  by pat_completeness auto
termination
  by (relation "measure id") auto

declare decimal.simps [simp del]

definition fmt_0d :: "nat \<Rightarrow> int \<Rightarrow> pystr" where
  "fmt_0d w n =
     (if n < 0
      then cp CHR ''-'' # replicate (w - 1 - length (decimal (nat (- n)))) (cp CHR ''0'')
             @ decimal (nat (- n))
      else replicate (w - length (decimal (nat n))) (cp CHR ''0'') @ decimal (nat n))"

subsection \<open>Calendar dates (\<open>datetime.date\<close>)\<close>

text \<open>
  A \<open>datetime.date\<close> holds a year, a month and a day of the proleptic Gregorian calendar.
  The constructor of the library only builds dates that satisfy \<open>valid_date\<close>.
\<close>

record pydate =
  year :: int
  month :: int
  day :: int

definition is_leap :: "int \<Rightarrow> bool" where
  "is_leap y \<longleftrightarrow> y mod 4 = 0 \<and> (y mod 100 \<noteq> 0 \<or> y mod 400 = 0)"

definition days_in_month :: "int \<Rightarrow> int \<Rightarrow> int" where
  "days_in_month y m =
     (if m = 2 then (if is_leap y then 29 else 28)
      else if m = 4 \<or> m = 6 \<or> m = 9 \<or> m = 11 then 30 else 31)"

definition valid_date :: "pydate \<Rightarrow> bool" where
  "valid_date d \<longleftrightarrow>
     1 \<le> year d \<and> year d \<le> 9999 \<and> 1 \<le> month d \<and> month d \<le> 12 \<and>
     1 \<le> day d \<and> day d \<le> days_in_month (year d) (month d)"

text \<open>\<open>date.isoformat()\<close>: \<open>"%04d-%02d-%02d" % (year, month, day)\<close>.\<close>

definition isoformat :: "pydate \<Rightarrow> pystr" where
  "isoformat d =
     fmt_0d 4 (year d) @ [cp CHR ''-''] @ fmt_0d 2 (month d) @ [cp CHR ''-''] @ fmt_0d 2 (day d)"

text \<open>The canonical day key: four digits, a dash, two digits, a dash, two digits.\<close>

definition canonical_date_str :: "pystr \<Rightarrow> bool" where
  "canonical_date_str s \<longleftrightarrow>
     length s = 10 \<and> list_all is_ascii_digit (take 4 s) \<and> s ! 4 = cp CHR ''-'' \<and>
     list_all is_ascii_digit (take 2 (drop 5 s)) \<and> s ! 7 = cp CHR ''-'' \<and>
     list_all is_ascii_digit (drop 8 s)"

section \<open>The data layer (\<open>core/data.py\<close>)\<close>

text \<open>
  \<open>DateLike\<close> is a \<open>datetime\<close>, a \<open>date\<close>, or an \<open>int\<close> or \<open>float\<close> timestamp. The time of
  day of a \<open>datetime\<close> plays no part and is left out; the timestamp is of a type \<open>'ts\<close>
  that the library function \<open>datetime.fromtimestamp\<close> turns into the local calendar date,
  or rejects with an exception. \<open>Unsupported\<close> stands for a value of any other type.
\<close>

datatype 'ts datelike = DateTimeVal pydate | DateVal pydate | Timestamp 'ts | Unsupported

definition to_date_str :: "('ts \<Rightarrow> py_error + pydate) \<Rightarrow> 'ts datelike \<Rightarrow> py_error + pystr" where
  "to_date_str fromtimestamp v =
     (case v of
        DateTimeVal d \<Rightarrow> Inr (isoformat d)
      | DateVal d \<Rightarrow> Inr (isoformat d)
      | Timestamp t \<Rightarrow>
          (case fromtimestamp t of Inl e \<Rightarrow> Inl e | Inr d \<Rightarrow> Inr (isoformat d))
      | Unsupported \<Rightarrow> Inl TypeError)"

datatype ScheduleStatus = Ok | Failed

record ScheduleData =
  date :: pystr
  outfit :: pystr
  schedule :: pystr
  status :: ScheduleStatus

text \<open>\<open>ScheduleDataManager\<close>: the dictionary \<open>_data\<close> and its five methods.\<close>

type_synonym ScheduleDataManager = "pystr \<rightharpoonup> ScheduleData"

definition has :: "('ts \<Rightarrow> py_error + pydate) \<Rightarrow> ScheduleDataManager \<Rightarrow> 'ts datelike \<Rightarrow> py_error + bool" where
  "has fts m d = (case to_date_str fts d of Inl e \<Rightarrow> Inl e | Inr k \<Rightarrow> Inr (k \<in> dom m))"

definition get :: "('ts \<Rightarrow> py_error + pydate) \<Rightarrow> ScheduleDataManager \<Rightarrow> 'ts datelike
    \<Rightarrow> py_error + ScheduleData option" where
  "get fts m d = (case to_date_str fts d of Inl e \<Rightarrow> Inl e | Inr k \<Rightarrow> Inr (m k))"

definition set_data :: "ScheduleDataManager \<Rightarrow> ScheduleData \<Rightarrow> ScheduleDataManager" where
  "set_data m r = m(date r \<mapsto> r)"

definition remove_data :: "('ts \<Rightarrow> py_error + pydate) \<Rightarrow> ScheduleDataManager \<Rightarrow> 'ts datelike
    \<Rightarrow> py_error + ScheduleDataManager" where
  "remove_data fts m d =
     (case to_date_str fts d of Inl e \<Rightarrow> Inl e | Inr k \<Rightarrow> Inr (m(k := None)))"

definition all_data :: "ScheduleDataManager \<Rightarrow> ScheduleDataManager" where
  "all_data m = m"

text \<open>
  A manager starts with an empty dictionary (\<open>__init__\<close>) and changes only through
  \<open>set\<close> and \<open>remove\<close>; a \<open>remove\<close> that raises leaves the dictionary as it was.
\<close>

datatype 'ts mgr_op = OpSet ScheduleData | OpRemove "'ts datelike"

fun apply_mgr_op :: "('ts \<Rightarrow> py_error + pydate) \<Rightarrow> ScheduleDataManager \<Rightarrow> 'ts mgr_op
    \<Rightarrow> ScheduleDataManager" where
  "apply_mgr_op fts m (OpSet r) = set_data m r"
| "apply_mgr_op fts m (OpRemove d) =
     (case remove_data fts m d of Inl e \<Rightarrow> m | Inr m' \<Rightarrow> m')"

definition manager_after :: "('ts \<Rightarrow> py_error + pydate) \<Rightarrow> 'ts mgr_op list \<Rightarrow> ScheduleDataManager" where
  "manager_after fts ops = foldl (apply_mgr_op fts) Map.empty ops"

text \<open>What the theorems ask of the date-like argument and of the library.\<close>

fun datelike_valid :: "'ts datelike \<Rightarrow> bool" where
  "datelike_valid (DateTimeVal d) = valid_date d"
| "datelike_valid (DateVal d) = valid_date d"
| "datelike_valid _ = True"

text \<open>A timestamp conversion for the examples: seconds since the epoch, 1970 only.\<close>

definition fromtimestamp_1970 :: "int \<Rightarrow> py_error + pydate" where
  "fromtimestamp_1970 t =
     (if 0 \<le> t \<and> t < 31 * 86400
      then Inr \<lparr>year = 1970, month = 1, day = 1 + t div 86400\<rparr>
      else Inl OverflowError)"

text \<open>Two records for the examples: one with a canonical day key, one without.\<close>

definition rec_canonical :: ScheduleData where
  "rec_canonical =
     \<lparr>date = ascii ''1970-01-02'', outfit = ascii ''coat'', schedule = ascii ''walk'', status = Ok\<rparr>"

definition rec_short_key :: ScheduleData where
  "rec_short_key =
     \<lparr>date = ascii ''1970-1-2'', outfit = ascii ''coat'', schedule = ascii ''walk'', status = Ok\<rparr>"

text \<open>Every entry of the dictionary sits under its own \<open>date\<close> field.\<close>

definition keyed_by_date :: "ScheduleDataManager \<Rightarrow> bool" where
  "keyed_by_date m \<longleftrightarrow> (\<forall>k r. m k = Some r \<longrightarrow> date r = k)"


section \<open>Generated records and the history context (\<open>main.py\<close>)\<close>

subsection \<open>Day arithmetic of \<open>datetime\<close>\<close>

text \<open>
  \<open>today - datetime.timedelta(days=i)\<close> goes through the proleptic Gregorian ordinal of
  the day (\<open>_ymd2ord\<close>, \<open>_ord2ymd\<close> of the library) and raises \<open>OverflowError\<close> when the
  result leaves the years 1 to 9999.
\<close>

definition days_before_year :: "int \<Rightarrow> int" where
  "days_before_year y = (y - 1) * 365 + (y - 1) div 4 - (y - 1) div 100 + (y - 1) div 400"

definition DAYS_IN_MONTH :: "int list" where
  "DAYS_IN_MONTH = [-1, 31, 28, 31, 30, 31, 30, 31, 31, 30, 31, 30, 31]"

definition DAYS_BEFORE_MONTH :: "int list" where
  "DAYS_BEFORE_MONTH = [-1, 0, 31, 59, 90, 120, 151, 181, 212, 243, 273, 304, 334]"

definition days_before_month :: "int \<Rightarrow> int \<Rightarrow> int" where
  "days_before_month y m = DAYS_BEFORE_MONTH ! nat m + (if m > 2 \<and> is_leap y then 1 else 0)"

definition toordinal :: "pydate \<Rightarrow> int" where
  "toordinal d = days_before_year (year d) + days_before_month (year d) (month d) + day d"

definition MAXORDINAL :: int where
  "MAXORDINAL = 3652059"

definition fromordinal :: "int \<Rightarrow> pydate" where
  "fromordinal n0 =
     (let n = n0 - 1;
          n400 = n div 146097; n = n mod 146097;
          y = n400 * 400 + 1;
          n100 = n div 36524; n = n mod 36524;
          n4 = n div 1461; n = n mod 1461;
          n1 = n div 365; n = n mod 365;
          y = y + n100 * 100 + n4 * 4 + n1
      in if n1 = 4 \<or> n100 = 4 then \<lparr>year = y - 1, month = 12, day = 31\<rparr>
         else
           let leapyear = (n1 = 3 \<and> (n4 \<noteq> 24 \<or> n100 = 3));
               m = (n + 50) div 32;
               preceding = DAYS_BEFORE_MONTH ! nat m + (if m > 2 \<and> leapyear then 1 else 0)
           in if preceding > n
              then \<lparr>year = y, month = m - 1,
                     day = n - (preceding - (DAYS_IN_MONTH ! nat (m - 1)
                                 + (if m - 1 = 2 \<and> leapyear then 1 else 0))) + 1\<rparr>
              else \<lparr>year = y, month = m, day = n - preceding + 1\<rparr>)"

definition sub_days :: "pydate \<Rightarrow> int \<Rightarrow> py_error + pydate" where
  "sub_days today i =
     (let n = toordinal today - i
      in if 0 < n \<and> n \<le> MAXORDINAL then Inr (fromordinal n) else Inl OverflowError)"

text \<open>
  \<open>strftime("%Y-%m-%d")\<close>: the year in four digits, as \<open>isoformat\<close> writes it (the C
  library of some platforms does not pad a year below 1000).
\<close>

definition strftime_ymd :: "pydate \<Rightarrow> pystr" where
  "strftime_ymd d = isoformat d"

subsection \<open>JSON values\<close>

text \<open>
  What \<open>json.loads\<close> returns, and what \<open>schedule_data\<close> holds for a day: a dictionary is
  a list of key-value pairs with distinct keys. Numbers carry an integer.
\<close>

datatype json =
  JNull | JBool bool | JNum int | JStr pystr | JArr "json list" | JObj "(pystr \<times> json) list"

subsection \<open>The history lines of \<open>generate_schedule_with_llm\<close>\<close>

text \<open>
  \<open>self.schedule_data[past_date].get('schedule', '')[:100]\<close> inside an f-string. A
  record that is not a dictionary has no \<open>get\<close>; a number, a boolean, \<open>None\<close> or a
  dictionary cannot be sliced; the slice of a list is written by \<open>str\<close>, a library
  function that is the parameter \<open>str_of\<close>.
\<close>

fun schedule_excerpt :: "(json \<Rightarrow> pystr) \<Rightarrow> json \<Rightarrow> py_error + pystr" where
  "schedule_excerpt str_of (JObj kvs) =
     (case map_of kvs (ascii ''schedule'') of
        None \<Rightarrow> Inr (take 100 [])
      | Some (JStr s) \<Rightarrow> Inr (take 100 s)
      | Some (JArr xs) \<Rightarrow> Inr (str_of (JArr (take 100 xs)))
      | Some _ \<Rightarrow> Inl TypeError)"
| "schedule_excerpt str_of _ = Inl AttributeError"

definition history_line :: "pystr \<Rightarrow> pystr \<Rightarrow> pystr" where
  "history_line past_date excerpt =
     ascii ''['' @ past_date @ ascii '']: '' @ excerpt @ ascii ''...''"

text \<open>The loop \<open>for i in range(1, reference_history_days + 1)\<close>, from \<open>i\<close> on.\<close>

function history_loop ::
  "(json \<Rightarrow> pystr) \<Rightarrow> pydate \<Rightarrow> (pystr \<rightharpoonup> json) \<Rightarrow> int \<Rightarrow> int \<Rightarrow> pystr list
     \<Rightarrow> py_error + pystr list" where
  "history_loop str_of today schedule_data d i history_schedules =
     (if i > d then Inr history_schedules
      else
        (case sub_days today i of
          Inl e \<Rightarrow> Inl e
        | Inr p \<Rightarrow>
            (let past_date = strftime_ymd p
             in (case schedule_data past_date of
                  None \<Rightarrow> history_loop str_of today schedule_data d (i + 1) history_schedules
                | Some r \<Rightarrow>
                    (case schedule_excerpt str_of r of
                       Inl e \<Rightarrow> Inl e
                     | Inr x \<Rightarrow>
                         history_loop str_of today schedule_data d (i + 1)
                           (history_schedules @ [history_line past_date x]))))))"
  by pat_completeness auto
termination
  by (relation "measure (\<lambda>(str_of, today, schedule_data, d, i, hs). nat (d + 1 - i))") auto

declare history_loop.simps [simp del]

definition history_schedules ::
  "(json \<Rightarrow> pystr) \<Rightarrow> pydate \<Rightarrow> (pystr \<rightharpoonup> json) \<Rightarrow> int \<Rightarrow> py_error + pystr list" where
  "history_schedules str_of today schedule_data d =
     history_loop str_of today schedule_data d 1 []"










section \<open>The response extractor (\<open>extract_json_from_text\<close>)\<close>

subsection \<open>\<open>strip\<close> and the three substitutions\<close>

definition strip :: "pystr \<Rightarrow> pystr" where
  "strip s = rev (dropWhile isspace (rev (dropWhile isspace s)))"

text \<open>
  \<open>re.sub(r'^LIT\s*', '', text, flags=re.MULTILINE)\<close> for a literal \<open>LIT = l # ls\<close>:
  at a line start (the start of the text or the position after a newline of the text)
  the literal and all the white space that follows are removed, and the search goes on
  behind them. \<open>bol\<close> tells whether the current position is a line start.
\<close>

function sub_at_line_start :: "codepoint \<Rightarrow> pystr \<Rightarrow> bool \<Rightarrow> pystr \<Rightarrow> pystr" where
  "sub_at_line_start l ls bol [] = []"
| "sub_at_line_start l ls bol (c # cs) =
     (if bol \<and> prefix (l # ls) (c # cs)
      then
        (let rest = drop (length (l # ls)) (c # cs);
             ws = takeWhile isspace rest
         in sub_at_line_start l ls (ws \<noteq> [] \<and> last ws = cp CHR ''\<newline>'') (dropWhile isspace rest))
      else c # sub_at_line_start l ls (c = cp CHR ''\<newline>'') cs)"
  by pat_completeness auto
termination
proof (relation "measure (\<lambda>(l, ls, bol, text). length text)")
  show "wf (measure (\<lambda>(l, ls, bol, text). length text))" by simp
next
  fix l :: codepoint and ls bol c cs and rest ws :: pystr
  assume "rest = drop (length (l # ls)) (c # cs)"
  then have "length (dropWhile isspace rest) \<le> length cs"
    using length_dropWhile_le[of isspace rest] by simp
  then show "((l, ls, ws \<noteq> [] \<and> last ws = cp CHR ''\<newline>'', dropWhile isspace rest),
              (l, ls, bol, c # cs)) \<in> measure (\<lambda>(l, ls, bol, text). length text)"
    by simp
next
  fix l :: codepoint and ls bol c cs
  show "((l, ls, c = cp CHR ''\<newline>'', cs), (l, ls, bol, c # cs))
          \<in> measure (\<lambda>(l, ls, bol, text). length text)"
    by simp
qed

text \<open>
  \<open>re.sub(r'```\s*$', '', text, flags=re.MULTILINE)\<close>. After three backquotes the
  greedy \<open>\s*\<close> takes the whole run \<open>ws\<close> of white space and gives characters back
  until \<open>$\<close> holds: at the end of the text, or before a newline. \<open>eol_end\<close> is the
  number of white-space characters that the match keeps, if there is a match.
\<close>

definition eol_end :: "pystr \<Rightarrow> pystr \<Rightarrow> nat option" where
  "eol_end ws after =
     (if after = [] then Some (length ws)
      else if cp CHR ''\<newline>'' \<in> set ws
      then Some (length ws - 1 - length (takeWhile (\<lambda>c. c \<noteq> cp CHR ''\<newline>'') (rev ws)))
      else None)"

function sub_fence_at_eol :: "pystr \<Rightarrow> pystr" where
  "sub_fence_at_eol [] = []"
| "sub_fence_at_eol (c # cs) =
     (if prefix (ascii ''```'') (c # cs)
      then
        (let rest = drop 3 (c # cs)
         in (case eol_end (takeWhile isspace rest) (dropWhile isspace rest) of
               Some k \<Rightarrow> sub_fence_at_eol (drop k rest)
             | None \<Rightarrow> c # sub_fence_at_eol cs))
      else c # sub_fence_at_eol cs)"
  by pat_completeness auto
termination
  by (relation "measure length") auto

definition strip_fences :: "pystr \<Rightarrow> pystr" where
  "strip_fences text =
     sub_fence_at_eol
       (sub_at_line_start (cp CHR ''`'') (ascii ''``'') True
          (sub_at_line_start (cp CHR ''`'') (ascii ''``json'') True (strip text)))"

subsection \<open>The scan\<close>

text \<open>
  The loop over \<open>text[start_index:]\<close>. \<open>seen\<close> is the part of it before the current
  character, so that \<open>json_str\<close> is \<open>seen @ [char]\<close>. \<open>loads\<close> is \<open>json.loads\<close>, with
  \<open>None\<close> for \<open>JSONDecodeError\<close>; the scan does not look at what it returns.
\<close>

fun scan_braces :: "(pystr \<Rightarrow> 'a option) \<Rightarrow> pystr \<Rightarrow> int \<Rightarrow> bool \<Rightarrow> bool \<Rightarrow> pystr \<Rightarrow> 'a option" where
  "scan_braces loads seen brace_level in_string escape [] = None"
| "scan_braces loads seen brace_level in_string escape (char # rest) =
     (if in_string then
        (if escape then scan_braces loads (seen @ [char]) brace_level in_string False rest
         else if char = cp CHR 0x5C then scan_braces loads (seen @ [char]) brace_level in_string True rest
         else if char = cp CHR 0x22 then scan_braces loads (seen @ [char]) brace_level False escape rest
         else scan_braces loads (seen @ [char]) brace_level in_string escape rest)
      else
        (if char = cp CHR 0x22 then scan_braces loads (seen @ [char]) brace_level True escape rest
         else if char = cp CHR ''{'' then
           scan_braces loads (seen @ [char]) (brace_level + 1) in_string escape rest
         else if char = cp CHR ''}'' then
           (if brace_level - 1 = 0 then
              (case loads (seen @ [char]) of
                 Some v \<Rightarrow> Some v
               | None \<Rightarrow> scan_braces loads (seen @ [char]) (brace_level - 1) in_string escape rest)
            else scan_braces loads (seen @ [char]) (brace_level - 1) in_string escape rest)
         else scan_braces loads (seen @ [char]) brace_level in_string escape rest))"

definition extract_json_from_text :: "(pystr \<Rightarrow> 'a option) \<Rightarrow> pystr \<Rightarrow> 'a option" where
  "extract_json_from_text loads text =
     (let text = strip_fences text;
          body = dropWhile (\<lambda>c. c \<noteq> cp CHR ''{'') text
      in if body = [] then None else scan_braces loads [] 0 False False body)"

subsection \<open>The extractor in the words of its description\<close>







subsection \<open>A decoder for the examples\<close>

text \<open>
  \<open>json.loads\<close> belongs to the standard library; the theorems about the extractor hold
  for any decoder. The examples need a concrete one: \<open>json_loads\<close> follows the
  library's decoder on the part of JSON made of objects, arrays, strings with the
  two-character escapes, integers and the three literals. It reports a decoding error
  for the rest (fractions and exponents, \<open>\u\<close> escapes, \<open>NaN\<close> and \<open>Infinity\<close>), which
  no example uses. A duplicate key keeps its first position and its last value, as in
  a Python dictionary. The first argument of the three parsers bounds the depth of the
  recursion; \<open>json_loads\<close> starts it above the length of the text.
\<close>

definition is_json_ws :: "codepoint \<Rightarrow> bool" where
  "is_json_ws c \<longleftrightarrow> c = 32 \<or> c = 9 \<or> c = 10 \<or> c = 13"

definition skip_ws :: "pystr \<Rightarrow> pystr" where
  "skip_ws s = dropWhile is_json_ws s"

definition unescape :: "codepoint \<Rightarrow> codepoint option" where
  "unescape e =
     (if e = cp CHR 0x22 then Some (cp CHR 0x22)
      else if e = cp CHR 0x5C then Some (cp CHR 0x5C)
      else if e = cp CHR ''/'' then Some (cp CHR ''/'')
      else if e = cp CHR ''b'' then Some 8
      else if e = cp CHR ''f'' then Some 12
      else if e = cp CHR ''n'' then Some 10
      else if e = cp CHR ''r'' then Some 13
      else if e = cp CHR ''t'' then Some 9
      else None)"

text \<open>The text of a string, from behind its opening quote, and what follows it.\<close>

fun scan_string :: "pystr \<Rightarrow> pystr \<Rightarrow> (pystr \<times> pystr) option" where
  "scan_string acc [] = None"
| "scan_string acc [c] = (if c = cp CHR 0x22 then Some (acc, []) else None)"
| "scan_string acc (c # e # cs) =
     (if c = cp CHR 0x22 then Some (acc, e # cs)
      else if c = cp CHR 0x5C then
        (case unescape e of None \<Rightarrow> None | Some x \<Rightarrow> scan_string (acc @ [x]) cs)
      else if c < 32 then None
      else scan_string (acc @ [c]) (e # cs))"

definition digits_value :: "pystr \<Rightarrow> int" where
  "digits_value ds = foldl (\<lambda>a d. 10 * a + (int d - 48)) 0 ds"

definition scan_digits :: "pystr \<Rightarrow> (int \<times> pystr) option" where
  "scan_digits s =
     (let ds = takeWhile is_ascii_digit s; r = dropWhile is_ascii_digit s
      in if ds = [] then None
         else if hd ds = cp CHR ''0'' then
           (case tl s of [] \<Rightarrow> Some (0, [])
            | c # cs \<Rightarrow>
                if c = cp CHR ''.'' \<or> c = cp CHR ''e'' \<or> c = cp CHR ''E'' then None
                else Some (0, c # cs))
         else
           (case r of [] \<Rightarrow> Some (digits_value ds, [])
            | c # cs \<Rightarrow>
                if c = cp CHR ''.'' \<or> c = cp CHR ''e'' \<or> c = cp CHR ''E'' then None
                else Some (digits_value ds, r)))"

definition scan_number :: "pystr \<Rightarrow> (json \<times> pystr) option" where
  "scan_number s =
     (case s of [] \<Rightarrow> None
      | c # cs \<Rightarrow>
          if c = cp CHR ''-'' then map_option (\<lambda>(n, r). (JNum (- n), r)) (scan_digits cs)
          else map_option (\<lambda>(n, r). (JNum n, r)) (scan_digits s))"

fun dict_set :: "(pystr \<times> json) list \<Rightarrow> pystr \<Rightarrow> json \<Rightarrow> (pystr \<times> json) list" where
  "dict_set [] k v = [(k, v)]"
| "dict_set (p # ps) k v = (if fst p = k then (k, v) # ps else p # dict_set ps k v)"

fun parse_value :: "nat \<Rightarrow> pystr \<Rightarrow> (json \<times> pystr) option"
  and parse_members :: "nat \<Rightarrow> (pystr \<times> json) list \<Rightarrow> pystr \<Rightarrow> (json \<times> pystr) option"
  and parse_elements :: "nat \<Rightarrow> json list \<Rightarrow> pystr \<Rightarrow> (json \<times> pystr) option" where
  "parse_value 0 s = None"
| "parse_value (Suc n) s =
     (case s of [] \<Rightarrow> None
      | c # r \<Rightarrow>
          if c = cp CHR 0x22 then map_option (\<lambda>(t, r'). (JStr t, r')) (scan_string [] r)
          else if c = cp CHR ''{'' then
            (case skip_ws r of [] \<Rightarrow> None
             | c' # r' \<Rightarrow> if c' = cp CHR ''}'' then Some (JObj [], r')
                          else parse_members n [] (c' # r'))
          else if c = cp CHR ''['' then
            (case skip_ws r of [] \<Rightarrow> None
             | c' # r' \<Rightarrow> if c' = cp CHR '']'' then Some (JArr [], r')
                          else parse_elements n [] (c' # r'))
          else if prefix (ascii ''null'') s then Some (JNull, drop 4 s)
          else if prefix (ascii ''true'') s then Some (JBool True, drop 4 s)
          else if prefix (ascii ''false'') s then Some (JBool False, drop 5 s)
          else scan_number s)"
| "parse_members 0 kvs s = None"
| "parse_members (Suc n) kvs s =
     (case s of [] \<Rightarrow> None
      | c # r \<Rightarrow>
          if c \<noteq> cp CHR 0x22 then None
          else
            (case scan_string [] r of None \<Rightarrow> None
             | Some (k, r1) \<Rightarrow>
                 (case skip_ws r1 of [] \<Rightarrow> None
                  | c1 # r2 \<Rightarrow>
                      if c1 \<noteq> cp CHR '':'' then None
                      else
                        (case parse_value n (skip_ws r2) of None \<Rightarrow> None
                         | Some (v, r3) \<Rightarrow>
                             (case skip_ws r3 of [] \<Rightarrow> None
                              | c3 # r4 \<Rightarrow>
                                  if c3 = cp CHR ''}'' then Some (JObj (dict_set kvs k v), r4)
                                  else if c3 = cp CHR '','' then
                                    parse_members n (dict_set kvs k v) (skip_ws r4)
                                  else None)))))"
| "parse_elements 0 vs s = None"
| "parse_elements (Suc n) vs s =
     (case parse_value n s of None \<Rightarrow> None
      | Some (v, r) \<Rightarrow>
          (case skip_ws r of [] \<Rightarrow> None
           | c # r' \<Rightarrow>
               if c = cp CHR '']'' then Some (JArr (vs @ [v]), r')
               else if c = cp CHR '','' then parse_elements n (vs @ [v]) (skip_ws r')
               else None))"

definition json_loads :: "pystr \<Rightarrow> json option" where
  "json_loads s =
     (case parse_value (Suc (length s)) (skip_ws s) of
        None \<Rightarrow> None
      | Some (v, r) \<Rightarrow> if skip_ws r = [] then Some v else None)"


section \<open>The generator call and its fallback (\<open>generate_schedule_with_llm\<close>)\<close>

text \<open>Truth value of a Python object that came out of \<open>json.loads\<close>.\<close>

fun truthy :: "json \<Rightarrow> bool" where
  "truthy JNull = False"
| "truthy (JBool b) = b"
| "truthy (JNum n) = (n \<noteq> 0)"
| "truthy (JStr s) = (s \<noteq> [])"
| "truthy (JArr xs) = (xs \<noteq> [])"
| "truthy (JObj kvs) = (kvs \<noteq> [])"

text \<open>
  \<open>provider.text_chat\<close> is the external generator: it raises, or it returns a response
  whose \<open>completion_text\<close> is a string.
\<close>

datatype llm_reply = Raises | Completion pystr

text \<open>The outfit of the fallback record, five CJK code points.\<close>

definition OUTFIT_FALLBACK :: pystr where
  "OUTFIT_FALLBACK = [26085, 24120, 20241, 38386, 35013]"

text \<open>
  The function from the lookup of the provider on. What comes before builds the prompt,
  which only the generator reads; the clean-up of the \<open>finally\<close> block catches its own
  exceptions and does not change the result. \<open>provider\<close> tells whether
  \<open>get_using_provider\<close> returned one.
\<close>

definition generate_schedule_with_llm :: "(pystr \<Rightarrow> json option) \<Rightarrow> bool \<Rightarrow> llm_reply \<Rightarrow> json option" where
  "generate_schedule_with_llm loads provider reply =
     (if \<not> provider then None
      else
        (case reply of
           Raises \<Rightarrow> None
         | Completion content \<Rightarrow>
             (case extract_json_from_text loads content of
                Some json_data \<Rightarrow>
                  if truthy json_data then Some json_data
                  else Some (JObj [(ascii ''outfit'', JStr OUTFIT_FALLBACK),
                                   (ascii ''schedule'', JStr content)])
              | None \<Rightarrow>
                  Some (JObj [(ascii ''outfit'', JStr OUTFIT_FALLBACK),
                              (ascii ''schedule'', JStr content)]))))"

section \<open>Persistence (\<open>save_config\<close>, \<open>save_data\<close>)\<close>

text \<open>
  A path is a stem (directory and base name) and a suffix; \<open>with_suffix\<close> replaces
  the suffix. The disk is a map from paths to file contents.
\<close>

type_synonym path = "pystr \<times> pystr"

type_synonym filesystem = "path \<rightharpoonup> pystr"

definition with_suffix :: "path \<Rightarrow> pystr \<Rightarrow> path" where
  "with_suffix p s = (fst p, s)"

definition config_path :: "pystr \<Rightarrow> path" where
  "config_path base_dir = (base_dir @ ascii ''/config'', ascii ''.json'')"


text \<open>
  The body that \<open>save_config\<close> and \<open>save_data\<close> share, as the list of the states of the
  disk that it goes through: the disk before; the temporary file opened for writing
  (empty) and then holding a longer and longer prefix of the text; on a host where
  \<open>os.name\<close> is \<open>'nt'\<close> and the canonical file exists, that file removed; and
  \<open>os.replace\<close> done. A crash, or an I/O error (which the function catches and logs),
  leaves the disk in one of these states.
\<close>

definition atomic_write_states :: "pystr \<Rightarrow> path \<Rightarrow> pystr \<Rightarrow> filesystem \<Rightarrow> filesystem list" where
  "atomic_write_states os_name p content disk =
     (let temp_path = with_suffix p (ascii ''.tmp'');
          written = disk(temp_path \<mapsto> content);
          removed = (if os_name = ascii ''nt'' \<and> p \<in> dom written then [written(p := None)] else [])
      in disk # map (\<lambda>n. disk(temp_path \<mapsto> take n content)) [0..<Suc (length content)]
           @ removed
           @ [(last (written # removed))(p \<mapsto> content, temp_path := None)])"

definition atomic_write :: "pystr \<Rightarrow> path \<Rightarrow> pystr \<Rightarrow> filesystem \<Rightarrow> filesystem" where
  "atomic_write os_name p content disk = last (atomic_write_states os_name p content disk)"


section \<open>Configuration, scheduler and the \<open>time\<close> command\<close>

record ChatReference =
  umo :: pystr
  count :: int

record SchedulerConfig =
  schedule_time :: pystr
  reference_history_days :: int
  reference_chats :: "ChatReference list"
  prompt_template :: pystr
  outfit_desc :: pystr

definition chat_to_dict :: "ChatReference \<Rightarrow> json" where
  "chat_to_dict r = JObj [(ascii ''umo'', JStr (umo r)), (ascii ''count'', JNum (count r))]"

definition to_dict :: "SchedulerConfig \<Rightarrow> json" where
  "to_dict c =
     JObj [(ascii ''schedule_time'', JStr (schedule_time c)),
           (ascii ''reference_history_days'', JNum (reference_history_days c)),
           (ascii ''reference_chats'', JArr (map chat_to_dict (reference_chats c))),
           (ascii ''prompt_template'', JStr (prompt_template c)),
           (ascii ''outfit_desc'', JStr (outfit_desc c))]"

text \<open>
  \<open>LifeScheduler\<close> of \<open>main.py\<close>: its own copy of the time, and the job with the hour
  and minute fields of its cron trigger (none when \<open>add_job\<close> failed).
  \<open>reschedule_calls\<close> counts the calls of \<open>job.reschedule\<close>.
\<close>

record LifeScheduler =
  ls_schedule_time :: pystr
  job :: "(pystr \<times> pystr) option"
  reschedule_calls :: nat

text \<open>\<open>s.split(":")\<close>.\<close>

fun split_on :: "codepoint \<Rightarrow> pystr \<Rightarrow> pystr list" where
  "split_on sep [] = [[]]"
| "split_on sep (x # xs) =
     (if x = sep then [] # split_on sep xs
      else (case split_on sep xs of [] \<Rightarrow> [[x]] | p # ps \<Rightarrow> (x # p) # ps))"

text \<open>
  \<open>update_schedule_time\<close>. \<open>cron_accepts hour minute\<close> tells whether the cron trigger of
  the scheduling library takes the two fields; when it does not, \<open>reschedule\<close> raises,
  the job stays as it was and the exception is logged. The unpacking of the split
  raises unless there are exactly two parts.
\<close>

definition update_schedule_time :: "(pystr \<Rightarrow> pystr \<Rightarrow> bool) \<Rightarrow> pystr \<Rightarrow> LifeScheduler \<Rightarrow> LifeScheduler" where
  "update_schedule_time cron_accepts new_time ls =
     (if new_time = ls_schedule_time ls then ls
      else
        (case split_on (cp CHR '':'') new_time of
           [hour, minute] \<Rightarrow>
             (let ls1 = ls\<lparr>ls_schedule_time := new_time\<rparr>
              in (case job ls1 of
                    None \<Rightarrow> ls1
                  | Some j \<Rightarrow>
                      if cron_accepts hour minute
                      then ls1\<lparr>job := Some (hour, minute),
                              reschedule_calls := reschedule_calls ls1 + 1\<rparr>
                      else ls1\<lparr>reschedule_calls := reschedule_calls ls1 + 1\<rparr>))
         | _ \<Rightarrow> ls))"

text \<open>
  \<open>re.match(r"^\d{2}:\d{2}$", param)\<close>: two digits, a colon, two digits, and then the
  end of the string or one newline before it. \<open>isdecimal\<close> is the table of \<open>\d\<close>,
  the decimal digits of Unicode.
\<close>

definition matches_hhmm :: "(codepoint \<Rightarrow> bool) \<Rightarrow> pystr \<Rightarrow> bool" where
  "matches_hhmm isdecimal param \<longleftrightarrow>
     (length param = 5 \<or> (length param = 6 \<and> param ! 5 = cp CHR ''\<newline>'')) \<and>
     isdecimal (param ! 0) \<and> isdecimal (param ! 1) \<and> param ! 2 = cp CHR '':'' \<and>
     isdecimal (param ! 3) \<and> isdecimal (param ! 4)"

text \<open>The state of the plugin that the command touches, and its replies.\<close>

record plugin =
  config :: SchedulerConfig
  scheduler :: LifeScheduler
  disk :: filesystem

datatype time_reply = TimeMissing | TimeFormatError | TimeUpdated pystr

record host =
  isdecimal :: "codepoint \<Rightarrow> bool"
  cron_accepts :: "pystr \<Rightarrow> pystr \<Rightarrow> bool"
  dumps :: "json \<Rightarrow> pystr"
  os_name :: pystr
  base_dir :: pystr

definition save_config :: "host \<Rightarrow> plugin \<Rightarrow> plugin" where
  "save_config h st =
     st\<lparr>disk := atomic_write (os_name h) (config_path (base_dir h))
                    (dumps h (to_dict (config st))) (disk st)\<rparr>"

text \<open>The branch \<open>action == "time"\<close> of \<open>life_command\<close>.\<close>

definition life_command_time :: "host \<Rightarrow> pystr \<Rightarrow> plugin \<Rightarrow> plugin \<times> time_reply" where
  "life_command_time h param st =
     (if param = [] then (st, TimeMissing)
      else if \<not> matches_hhmm (isdecimal h) param then (st, TimeFormatError)
      else
        (let st1 = st\<lparr>scheduler := update_schedule_time (cron_accepts h) param (scheduler st)\<rparr>;
             st2 = st1\<lparr>config := (config st1)\<lparr>schedule_time := param\<rparr>\<rparr>;
             st3 = save_config h st2
         in (st3, TimeUpdated param)))"

text \<open>A time of the 24-hour clock: \<open>HH:MM\<close> with \<open>HH\<close> below 24 and \<open>MM\<close> below 60.\<close>

definition valid_24h :: "pystr \<Rightarrow> bool" where
  "valid_24h s \<longleftrightarrow>
     length s = 5 \<and> is_ascii_digit (s ! 0) \<and> is_ascii_digit (s ! 1) \<and> s ! 2 = cp CHR '':'' \<and>
     is_ascii_digit (s ! 3) \<and> is_ascii_digit (s ! 4) \<and>
     (s ! 0 - 48) * 10 + (s ! 1 - 48) < 24 \<and> (s ! 3 - 48) * 10 + (s ! 4 - 48) < 60"

text \<open>
  For the examples: a host with the digits 0 to 9, a cron trigger that takes hours
  below 24 and minutes below 60 written with two digits, a serializer that writes the
  time only, and a plugin that was started at 07:00 and has not saved its
  configuration yet.
\<close>

definition example_host :: "pystr \<Rightarrow> host" where
  "example_host name =
     \<lparr>isdecimal = is_ascii_digit,
      cron_accepts = (\<lambda>hour minute. valid_24h (hour @ ascii '':'' @ minute)),
      dumps = (\<lambda>j. case j of JObj ((k, JStr t) # kvs) \<Rightarrow> t | _ \<Rightarrow> []),
      os_name = name,
      base_dir = ascii ''/data''\<rparr>"

definition example_config :: SchedulerConfig where
  "example_config =
     \<lparr>schedule_time = ascii ''07:00'', reference_history_days = 3, reference_chats = [],
      prompt_template = ascii ''{date_str}'', outfit_desc = ascii ''plain''\<rparr>"

definition example_plugin :: plugin where
  "example_plugin =
     \<lparr>config = example_config,
      scheduler = \<lparr>ls_schedule_time = ascii ''07:00'',
                   job = Some (ascii ''07'', ascii ''00''), reschedule_calls = 0\<rparr>,
      disk = Map.empty\<rparr>"

section \<open>The two triggers and the generation guard\<close>

text \<open>
  All coroutines of the plugin run on one event loop: a coroutine runs alone from one
  \<open>await\<close> that suspends it to the next, and the loop picks which one goes on. A task
  is one run of \<open>on_llm_request\<close> (the lazy trigger), of \<open>daily_schedule_task\<close> (the
  cron trigger) or of the \<open>regenerate\<close> branch of \<open>life_command\<close>, for the day
  \<open>today_str\<close>. Its program counter names the \<open>await\<close> where it stands:
  \<^item> \<open>Start\<close>: not started;
  \<^item> \<open>WaitLock\<close>: the lazy trigger passed its first check and waits for
    \<open>generation_lock\<close>;
  \<^item> \<open>Assembling\<close>: inside \<open>generate_schedule_with_llm\<close>, at an \<open>await\<close> of the context
    assembly, before the provider is asked;
  \<^item> \<open>Calling k\<close>: at \<open>await provider.text_chat\<close>, the invocation number \<open>k\<close> of the
    generator;
  \<^item> \<open>Storing info\<close>: generation returned \<open>info\<close>, the task waits for \<open>data_lock\<close>;
  \<^item> \<open>Saving\<close>: the record is in \<open>schedule_data\<close>, \<open>save_data\<close> is writing;
  \<^item> \<open>Done\<close>: finished (the lazy trigger has no \<open>await\<close> between the release of the
    lock and its end).

  The loop may switch tasks at each of these points. Where the code cannot be suspended
  (an \<open>asyncio.Lock\<close> that is free is taken without a switch, a coroutine of the
  context assembly may return at once), the order that resumes the same task again is
  the run of the code; so every interleaving of the code is a run of the model. A task
  that waits for the lock goes on when the lock is free, whichever waiter it is. A
  request of the generation session itself (\<open>session_id == "life_scheduler_gen"\<close>)
  returns at once and is no task.
\<close>

datatype kind = Lazy | Cron | Regenerate

datatype pc = Start | WaitLock | Assembling | Calling nat | Storing json | Saving | Done

record task =
  kind :: kind
  pc :: pc

text \<open>
  The shared state of the plugin, with two counters that the code does not have: the
  calls of \<open>provider.text_chat\<close> and the assignments \<open>schedule_data[today_str] = ...\<close>.
\<close>

record world =
  schedule_data :: "pystr \<rightharpoonup> json"
  failed_dates :: "pystr set"
  generation_lock :: bool
  gen_calls :: nat
  record_writes :: nat
  tasks :: "task list"

text \<open>
  What the plugin does not decide: whether a provider is configured, what the generator
  answers to its invocation number \<open>k\<close>, and the JSON decoder.
\<close>

record env =
  provider_there :: bool
  reply_of :: "nat \<Rightarrow> llm_reply"
  decoder :: "pystr \<Rightarrow> json option"

definition set_pc :: "nat \<Rightarrow> pc \<Rightarrow> world \<Rightarrow> world" where
  "set_pc i p w = w\<lparr>tasks := (tasks w)[i := (tasks w ! i)\<lparr>pc := p\<rparr>]\<rparr>"

text \<open>\<open>today_str not in self.schedule_data and today_str not in self.failed_dates\<close>.\<close>

definition absent :: "pystr \<Rightarrow> world \<Rightarrow> bool" where
  "absent today w \<longleftrightarrow> today \<notin> dom (schedule_data w) \<and> today \<notin> failed_dates w"

text \<open>
  Generation gave no record (\<open>schedule_info\<close> is \<open>None\<close> or empty). The lazy trigger
  marks the day as failed and leaves the lock; the other two only report.
\<close>

definition no_record :: "pystr \<Rightarrow> nat \<Rightarrow> world \<Rightarrow> world" where
  "no_record today i w =
     (if kind (tasks w ! i) = Lazy
      then (set_pc i Done w)\<lparr>failed_dates := insert today (failed_dates w),
                              generation_lock := False\<rparr>
      else set_pc i Done w)"

text \<open>Task \<open>i\<close> runs from where it stands to its next \<open>await\<close>.\<close>

definition step :: "env \<Rightarrow> pystr \<Rightarrow> nat \<Rightarrow> world \<Rightarrow> world" where
  "step e today i w =
     (if length (tasks w) \<le> i then w
      else
        (case pc (tasks w ! i) of
           Start \<Rightarrow>
             (if kind (tasks w ! i) = Lazy
              then (if absent today w then set_pc i WaitLock w else set_pc i Done w)
              else set_pc i Assembling w)
         | WaitLock \<Rightarrow>
             (if generation_lock w then w
              else if absent today w then (set_pc i Assembling w)\<lparr>generation_lock := True\<rparr>
              else set_pc i Done w)
         | Assembling \<Rightarrow>
             (if \<not> provider_there e then no_record today i w
              else (set_pc i (Calling (gen_calls w)) w)\<lparr>gen_calls := gen_calls w + 1\<rparr>)
         | Calling k \<Rightarrow>
             (case generate_schedule_with_llm (decoder e) True (reply_of e k) of
                None \<Rightarrow> no_record today i w
              | Some schedule_info \<Rightarrow>
                  if truthy schedule_info then set_pc i (Storing schedule_info) w
                  else no_record today i w)
         | Storing schedule_info \<Rightarrow>
             (set_pc i Saving w)
               \<lparr>schedule_data := (schedule_data w)(today \<mapsto> schedule_info),
                record_writes := record_writes w + 1\<rparr>
         | Saving \<Rightarrow>
             (if kind (tasks w ! i) = Lazy then (set_pc i Done w)\<lparr>generation_lock := False\<rparr>
              else set_pc i Done w)
         | Done \<Rightarrow> w))"

text \<open>The event loop resumes the tasks in the order of a list of indices.\<close>

definition run :: "env \<Rightarrow> pystr \<Rightarrow> nat list \<Rightarrow> world \<Rightarrow> world" where
  "run e today order w = foldl (\<lambda>w i. step e today i w) w order"

definition start_world :: "(pystr \<rightharpoonup> json) \<Rightarrow> pystr set \<Rightarrow> kind list \<Rightarrow> world" where
  "start_world d f ks =
     \<lparr>schedule_data = d, failed_dates = f, generation_lock = False, gen_calls = 0,
      record_writes = 0, tasks = map (\<lambda>k. \<lparr>kind = k, pc = Start\<rparr>) ks\<rparr>"

definition all_done :: "world \<Rightarrow> bool" where
  "all_done w \<longleftrightarrow> list_all (\<lambda>t. pc t = Done) (tasks w)"



definition free_with :: "bool \<Rightarrow> task list \<Rightarrow> pc set \<Rightarrow> bool" where
  "free_with lk ts S \<longleftrightarrow> \<not> lk \<and> (\<forall>j<length ts. pc (ts ! j) \<in> S)"


text \<open>
  The invariant of a system of lazy triggers that started on a day with a record or a
  failure mark: nothing but the program counters moves.
\<close>

definition settled_inv :: "world \<Rightarrow> world \<Rightarrow> bool" where
  "settled_inv w0 w \<longleftrightarrow>
     list_all (\<lambda>t. kind t = Lazy) (tasks w) \<and>
     free_with (generation_lock w) (tasks w) {Start, Done} \<and>
     schedule_data w = schedule_data w0 \<and> failed_dates w = failed_dates w0 \<and>
     gen_calls w = gen_calls w0 \<and> record_writes w = record_writes w0"

text \<open>For the examples: a day, two records, and a generator that answers with the second.\<close>

definition the_day :: pystr where
  "the_day = ascii ''2024-03-03''"



definition example_env :: env where
  "example_env =
     \<lparr>provider_there = True,
      reply_of = (\<lambda>k. Completion (ascii ''{\"outfit\":\"a\",\"schedule\":\"b\"}'')),
      decoder = json_loads\<rparr>"

section \<open>Properties of the data layer\<close>

subsection \<open>Zero-padded decimal output\<close>

lemma decimal_digits: "list_all is_ascii_digit (decimal n)"
proof (induction n rule: decimal.induct)
  case (1 n)
  show ?case
  proof (cases "n < 10")
    case True
    then show ?thesis by (subst decimal.simps) (simp add: is_ascii_digit_def)
  next
    case False
    have "n mod 10 \<le> 9" by arith
    with False 1 show ?thesis
      by (subst decimal.simps) (auto simp: is_ascii_digit_def list_all_iff)
  qed
qed

lemma decimal_length: "0 < k \<Longrightarrow> n < 10 ^ k \<Longrightarrow> length (decimal n) \<le> k"
proof (induction n arbitrary: k rule: decimal.induct)
  case (1 n)
  show ?case
  proof (cases "n < 10")
    case True
    with 1 show ?thesis by (subst decimal.simps) simp
  next
    case False
    from 1(2) obtain j where k: "k = Suc j" by (cases k) auto
    have j: "0 < j"
    proof (rule ccontr)
      assume "\<not> 0 < j"
      with k 1(3) False show False by simp
    qed
    have "n div 10 < 10 ^ j" using 1(3) k by (simp add: less_mult_imp_div_less mult.commute)
    with 1(1)[OF False j] have "length (decimal (n div 10)) \<le> j" by simp
    with False k show ?thesis by (subst decimal.simps) simp
  qed
qed

lemma fmt_0d_digits:
  assumes "0 \<le> n" "n < 10 ^ w" "0 < w"
  shows "length (fmt_0d w n) = w \<and> list_all is_ascii_digit (fmt_0d w n)"
proof -
  have "nat n < 10 ^ w" using assms by (simp add: nat_less_iff)
  then have "length (decimal (nat n)) \<le> w" using assms(3) by (rule decimal_length[rotated])
  then show ?thesis using assms(1) decimal_digits[of "nat n"]
    by (auto simp: fmt_0d_def is_ascii_digit_def list_all_iff)
qed

lemma days_in_month_le: "days_in_month y m \<le> 31"
  by (simp add: days_in_month_def)

lemma isoformat_canonical: "valid_date d \<Longrightarrow> canonical_date_str (isoformat d)"
proof -
  assume v: "valid_date d"
  have y: "length (fmt_0d 4 (year d)) = 4 \<and> list_all is_ascii_digit (fmt_0d 4 (year d))"
    using v by (intro fmt_0d_digits) (auto simp: valid_date_def)
  have m: "length (fmt_0d 2 (month d)) = 2 \<and> list_all is_ascii_digit (fmt_0d 2 (month d))"
    using v by (intro fmt_0d_digits) (auto simp: valid_date_def)
  have "day d \<le> 31" using v days_in_month_le[of "year d" "month d"] by (simp add: valid_date_def)
  then have dd: "length (fmt_0d 2 (day d)) = 2 \<and> list_all is_ascii_digit (fmt_0d 2 (day d))"
    using v by (intro fmt_0d_digits) (auto simp: valid_date_def)
  show ?thesis using y m dd
    by (simp add: canonical_date_str_def isoformat_def nth_append)
qed

subsection \<open>The manager's dictionary\<close>

lemma keyed_by_date_step: "keyed_by_date m \<Longrightarrow> keyed_by_date (apply_mgr_op fts m x)"
  by (cases x) (auto simp: keyed_by_date_def set_data_def remove_data_def split: sum.splits)

lemma keyed_by_date_foldl: "keyed_by_date m \<Longrightarrow> keyed_by_date (foldl (apply_mgr_op fts) m ops)"
  by (induction ops arbitrary: m) (simp_all add: keyed_by_date_step)

lemma manager_after_keyed: "keyed_by_date (manager_after fts ops)"
  unfolding manager_after_def by (rule keyed_by_date_foldl) (simp add: keyed_by_date_def)

lemma to_date_str_canonical:
  assumes "\<And>t x. fts t = Inr x \<Longrightarrow> valid_date x" "datelike_valid d" "to_date_str fts d = Inr k"
  shows "canonical_date_str k"
  using assms
  by (cases d) (auto simp: to_date_str_def isoformat_canonical split: sum.splits)

lemma fromtimestamp_1970_valid: "fromtimestamp_1970 t = Inr x \<Longrightarrow> valid_date x"
  by (auto simp: fromtimestamp_1970_def valid_date_def days_in_month_def split: if_splits)

lemma to_date_str_second_day:
  "to_date_str fromtimestamp_1970 (Timestamp 86400) = Inr (ascii ''1970-01-02'')"
  by (simp add: to_date_str_def fromtimestamp_1970_def isoformat_def fmt_0d_def decimal.simps)

text \<open>
  Claim C10. \<open>set\<close> stores a record under its own \<open>date\<close> field, as it is; \<open>has\<close>,
  \<open>get\<close> and \<open>remove\<close> look up the key that \<open>to_date_str\<close> gives for their argument
  (and raise what it raises). So, in a manager that has been used through its methods
  only, \<open>get(d)\<close> after \<open>set(r)\<close> returns \<open>r\<close> exactly when \<open>to_date_str(d)\<close> is
  \<open>r.date\<close>, and a record whose \<open>date\<close> is not of the form yyyy-mm-dd is never the
  result of a \<open>get\<close> (for a \<open>date\<close> or \<open>datetime\<close> that the library can build, and a
  timestamp conversion that returns such dates).
\<close>

theorem set_get_normalization:
  fixes fts :: "'ts \<Rightarrow> py_error + pydate"
  shows
    "set_data m r = m(date r \<mapsto> r) \<and>
     has fts m d = map_sum id (\<lambda>k. k \<in> dom m) (to_date_str fts d) \<and>
     get fts m d = map_sum id m (to_date_str fts d) \<and>
     remove_data fts m d = map_sum id (\<lambda>k. m(k := None)) (to_date_str fts d) \<and>
     (get fts (set_data (manager_after fts ops) r) d = Inr (Some r)
        \<longleftrightarrow> to_date_str fts d = Inr (date r)) \<and>
     ((\<forall>t x. fts t = Inr x \<longrightarrow> valid_date x) \<and> datelike_valid d \<and> \<not> canonical_date_str (date r)
        \<longrightarrow> get fts (set_data (manager_after fts ops) r) d \<noteq> Inr (Some r))"
proof -
  have inv: "keyed_by_date (manager_after fts ops)" by (rule manager_after_keyed)
  have iff: "get fts (set_data (manager_after fts ops) r) d = Inr (Some r)
        \<longleftrightarrow> to_date_str fts d = Inr (date r)"
    using inv by (auto simp: get_def set_data_def keyed_by_date_def split: sum.splits)
  have canon: "get fts (set_data (manager_after fts ops) r) d \<noteq> Inr (Some r)"
    if "\<forall>t x. fts t = Inr x \<longrightarrow> valid_date x" "datelike_valid d" "\<not> canonical_date_str (date r)"
  proof
    assume "get fts (set_data (manager_after fts ops) r) d = Inr (Some r)"
    with iff have "to_date_str fts d = Inr (date r)" by simp
    with that(1,2) have "canonical_date_str (date r)" by (intro to_date_str_canonical[of fts d]) auto
    with that(3) show False by simp
  qed
  have defs: "set_data m r = m(date r \<mapsto> r)"
    "has fts m d = map_sum id (\<lambda>k. k \<in> dom m) (to_date_str fts d)"
    "get fts m d = map_sum id m (to_date_str fts d)"
    "remove_data fts m d = map_sum id (\<lambda>k. m(k := None)) (to_date_str fts d)"
    by (simp_all add: set_data_def has_def get_def remove_data_def split: sum.splits)
  from defs iff canon show ?thesis by blast
qed

theorem set_get_normalization_witness:
  "get fromtimestamp_1970
      (set_data (manager_after fromtimestamp_1970 [OpSet rec_short_key, OpRemove (Timestamp 0)])
         rec_canonical)
      (Timestamp 86400) = Inr (Some rec_canonical) \<and>
   to_date_str fromtimestamp_1970 (Timestamp 86400) = Inr (date rec_canonical) \<and>
   datelike_valid (Timestamp 86400 :: int datelike) \<and> \<not> canonical_date_str (date rec_short_key) \<and>
   get fromtimestamp_1970
      (set_data (manager_after fromtimestamp_1970 [OpSet rec_canonical]) rec_short_key)
      (Timestamp 86400) \<noteq> Inr (Some rec_short_key)"
proof -
  have v: "\<forall>t x. fromtimestamp_1970 t = Inr x \<longrightarrow> valid_date x"
    by (auto simp: fromtimestamp_1970_valid)
  have k: "to_date_str fromtimestamp_1970 (Timestamp 86400) = Inr (date rec_canonical)"
    by (simp add: to_date_str_second_day rec_canonical_def)
  have nc: "\<not> canonical_date_str (date rec_short_key)"
    by (simp add: rec_short_key_def canonical_date_str_def)
  show ?thesis
    using v k nc
      set_get_normalization [of Map.empty rec_canonical fromtimestamp_1970 "Timestamp 86400"
        "[OpSet rec_short_key, OpRemove (Timestamp 0)]"]
      set_get_normalization [of Map.empty rec_short_key fromtimestamp_1970 "Timestamp 86400"
        "[OpSet rec_canonical]"]
    by (simp add: rec_canonical_def rec_short_key_def)
qed

section \<open>Properties of the history context\<close>














section \<open>Properties of the response extractor\<close>








section \<open>Properties of the fallback\<close>

text \<open>
  Claim C5. When a provider is there, the generator returns a text and the extractor
  returns none for it, \<open>generate_schedule_with_llm\<close> returns a record, not a failure:
  its \<open>outfit\<close> is the fixed placeholder and its \<open>schedule\<close> is the whole text of the
  generator.
\<close>

theorem fallback_on_extraction_failure:
  "extract_json_from_text loads content = None \<Longrightarrow>
   generate_schedule_with_llm loads True (Completion content) =
     Some (JObj [(ascii ''outfit'', JStr OUTFIT_FALLBACK), (ascii ''schedule'', JStr content)])"
  by (simp add: generate_schedule_with_llm_def)

theorem fallback_on_extraction_failure_witness:
  "extract_json_from_text json_loads (ascii ''no json here'') = None \<and>
   generate_schedule_with_llm json_loads True (Completion (ascii ''no json here'')) =
     Some (JObj [(ascii ''outfit'', JStr OUTFIT_FALLBACK),
                 (ascii ''schedule'', JStr (ascii ''no json here''))])"
proof -
  have n: "extract_json_from_text json_loads (ascii ''no json here'') = None"
    by code_simp
  from fallback_on_extraction_failure[OF n] n show ?thesis by simp
qed

section \<open>Properties of persistence\<close>












section \<open>Properties of the \<open>time\<close> command\<close>

lemma update_same_time:
  "update_schedule_time ca (ls_schedule_time ls) ls = ls"
  by (simp add: update_schedule_time_def)

lemma config_same_time: "c\<lparr>schedule_time := schedule_time c\<rparr> = c"
  by simp

text \<open>
  Claim C8, as the code has it. The \<open>time\<close> command with the time that is configured
  already (and that the scheduler holds) leaves the scheduler as it is, with no call of
  \<open>reschedule\<close>, and the configuration in memory as it is. When the argument passes the
  pattern, \<open>save_config\<close> still runs and writes the snapshot of that configuration;
  when it does not, the disk is untouched.
\<close>

theorem time_command_same_time:
  assumes "param = schedule_time (config st)"
    and "ls_schedule_time (scheduler st) = schedule_time (config st)"
  shows
    "scheduler (fst (life_command_time h param st)) = scheduler st \<and>
     config (fst (life_command_time h param st)) = config st \<and>
     (param = [] \<or> \<not> matches_hhmm (isdecimal h) param \<longrightarrow>
        disk (fst (life_command_time h param st)) = disk st) \<and>
     (param \<noteq> [] \<and> matches_hhmm (isdecimal h) param \<longrightarrow>
        disk (fst (life_command_time h param st)) =
          atomic_write (os_name h) (config_path (base_dir h)) (dumps h (to_dict (config st))) (disk st) \<and>
        disk (fst (life_command_time h param st)) (config_path (base_dir h)) =
          Some (dumps h (to_dict (config st))))"
proof -
  have s: "snd (config_path (base_dir h)) \<noteq> ascii ''.tmp''" by (simp add: config_path_def)
  have f: "atomic_write (os_name h) (config_path (base_dir h)) (dumps h (to_dict (config st))) (disk st)
      (config_path (base_dir h)) = Some (dumps h (to_dict (config st)))"
    using s
    by (cases "config_path (base_dir h)")
       (auto simp: atomic_write_def atomic_write_states_def with_suffix_def Let_def simp del: upt_Suc)
  show ?thesis
    using assms f
    by (simp add: life_command_time_def save_config_def Let_def update_schedule_time_def)
qed

lemma example_host_fields:
  "isdecimal (example_host n) = is_ascii_digit"
  "base_dir (example_host n) = ascii ''/data''"
  "os_name (example_host n) = n"
  by (simp_all add: example_host_def)

lemma example_dumps:
  "dumps (example_host n) (to_dict (c\<lparr>schedule_time := t\<rparr>)) = t"
  "dumps (example_host n) (to_dict example_config) = ascii ''07:00''"
  by (simp_all add: example_host_def to_dict_def example_config_def)

theorem time_command_same_time_witness:
  "scheduler (fst (life_command_time (example_host (ascii ''posix'')) (ascii ''07:00'') example_plugin))
     = scheduler example_plugin \<and>
   config (fst (life_command_time (example_host (ascii ''posix'')) (ascii ''07:00'') example_plugin))
     = config example_plugin \<and>
   matches_hhmm is_ascii_digit (ascii ''07:00'') \<and>
   disk (fst (life_command_time (example_host (ascii ''posix'')) (ascii ''07:00'') example_plugin))
     (config_path (ascii ''/data'')) = Some (ascii ''07:00'')"
proof -
  let ?h = "example_host (ascii ''posix'')"
  have a: "ascii ''07:00'' = schedule_time (config example_plugin)"
    by (simp add: example_plugin_def example_config_def)
  have b: "ls_schedule_time (scheduler example_plugin) = schedule_time (config example_plugin)"
    by (simp add: example_plugin_def example_config_def)
  have m: "matches_hhmm is_ascii_digit (ascii ''07:00'')"
    by (simp add: matches_hhmm_def is_ascii_digit_def)
  have c: "config example_plugin = example_config" by (simp add: example_plugin_def)
  note T = time_command_same_time[OF a b, of ?h]
  from T have 1: "scheduler (fst (life_command_time ?h (ascii ''07:00'') example_plugin))
     = scheduler example_plugin" by (rule conjunct1)
  from T have 2: "config (fst (life_command_time ?h (ascii ''07:00'') example_plugin))
     = config example_plugin" by blast
  have ne: "ascii ''07:00'' \<noteq> []" by simp
  from T m ne have "disk (fst (life_command_time ?h (ascii ''07:00'') example_plugin))
      (config_path (base_dir ?h)) = Some (dumps ?h (to_dict (config example_plugin)))"
    unfolding example_host_fields by blast
  then have 3: "disk (fst (life_command_time ?h (ascii ''07:00'') example_plugin))
     (config_path (ascii ''/data'')) = Some (ascii ''07:00'')"
    by (simp only: example_host_fields c example_dumps)
  from 1 2 m 3 show ?thesis by (intro conjI)
qed

text \<open>
  The snapshot does change: a plugin that has not saved its configuration yet has a
  snapshot file after the command.
\<close>

theorem time_command_writes_counterexample:
  "disk example_plugin (config_path (ascii ''/data'')) = None \<and>
   disk (fst (life_command_time (example_host (ascii ''posix'')) (ascii ''07:00'') example_plugin))
     (config_path (ascii ''/data'')) = Some (ascii ''07:00'')"
  by code_simp

text \<open>
  Claim C9. The command checks the argument against the pattern of two digits, a colon
  and two digits, and nothing more. An argument that fails the pattern (or is empty) is
  rejected with the state untouched; an argument that passes it, whatever its hour and
  minute, becomes the configured time and is saved. The witness is \<open>25:00\<close>: not a
  time of the 24-hour clock, yet stored in the configuration and on disk, while the job
  keeps its old trigger.
\<close>

theorem time_command_pattern_only:
  shows
    "(param = [] \<or> \<not> matches_hhmm (isdecimal h) param \<longrightarrow>
        fst (life_command_time h param st) = st \<and> snd (life_command_time h param st) \<noteq> TimeUpdated param) \<and>
     (param \<noteq> [] \<and> matches_hhmm (isdecimal h) param \<longrightarrow>
        config (fst (life_command_time h param st)) = (config st)\<lparr>schedule_time := param\<rparr> \<and>
        snd (life_command_time h param st) = TimeUpdated param \<and>
        disk (fst (life_command_time h param st)) (config_path (base_dir h)) =
          Some (dumps h (to_dict ((config st)\<lparr>schedule_time := param\<rparr>))))"
proof -
  have s: "snd (config_path (base_dir h)) \<noteq> ascii ''.tmp''" by (simp add: config_path_def)
  have f: "atomic_write (os_name h) (config_path (base_dir h)) c (disk st)
      (config_path (base_dir h)) = Some c" for c
    using s
    by (cases "config_path (base_dir h)")
       (auto simp: atomic_write_def atomic_write_states_def with_suffix_def Let_def simp del: upt_Suc)
  show ?thesis
    using f by (simp add: life_command_time_def save_config_def Let_def)
qed

theorem time_command_pattern_only_witness:
  "\<not> valid_24h (ascii ''25:00'') \<and>
   matches_hhmm (isdecimal (example_host (ascii ''posix''))) (ascii ''25:00'') \<and>
   config (fst (life_command_time (example_host (ascii ''posix'')) (ascii ''25:00'') example_plugin))
     = (config example_plugin)\<lparr>schedule_time := ascii ''25:00''\<rparr> \<and>
   snd (life_command_time (example_host (ascii ''posix'')) (ascii ''25:00'') example_plugin)
     = TimeUpdated (ascii ''25:00'') \<and>
   disk (fst (life_command_time (example_host (ascii ''posix'')) (ascii ''25:00'') example_plugin))
     (config_path (ascii ''/data'')) = Some (ascii ''25:00'') \<and>
   ls_schedule_time (scheduler (fst (life_command_time (example_host (ascii ''posix'')) (ascii ''25:00'') example_plugin)))
     = ascii ''25:00'' \<and>
   job (scheduler (fst (life_command_time (example_host (ascii ''posix'')) (ascii ''25:00'') example_plugin)))
     = Some (ascii ''07'', ascii ''00'')"
proof -
  let ?h = "example_host (ascii ''posix'')"
  let ?r = "life_command_time ?h (ascii ''25:00'') example_plugin"
  have m: "matches_hhmm (isdecimal ?h) (ascii ''25:00'')"
    by (simp add: matches_hhmm_def is_ascii_digit_def example_host_fields)
  have v: "\<not> valid_24h (ascii ''25:00'')"
    by (simp add: valid_24h_def)
  have j: "ls_schedule_time (scheduler (fst ?r)) = ascii ''25:00''"
    "job (scheduler (fst ?r)) = Some (ascii ''07'', ascii ''00'')"
    by code_simp+
  note T = time_command_pattern_only[of "ascii ''25:00''" ?h example_plugin]
  have ne: "ascii ''25:00'' \<noteq> []" by simp
  from T m ne have 1: "config (fst ?r) = (config example_plugin)\<lparr>schedule_time := ascii ''25:00''\<rparr>"
    and 2: "snd ?r = TimeUpdated (ascii ''25:00'')"
    and "disk (fst ?r) (config_path (base_dir ?h)) =
          Some (dumps ?h (to_dict ((config example_plugin)\<lparr>schedule_time := ascii ''25:00''\<rparr>)))"
    by blast+
  then have 3: "disk (fst ?r) (config_path (ascii ''/data'')) = Some (ascii ''25:00'')"
    by (simp only: example_host_fields example_dumps)
  from v m 1 2 3 j show ?thesis by (intro conjI)
qed

section \<open>Properties of the triggers and the guard\<close>

lemma set_pc_fields [simp]:
  "tasks (set_pc i p w) = (tasks w)[i := (tasks w ! i)\<lparr>pc := p\<rparr>]"
  "schedule_data (set_pc i p w) = schedule_data w"
  "failed_dates (set_pc i p w) = failed_dates w"
  "generation_lock (set_pc i p w) = generation_lock w"
  "gen_calls (set_pc i p w) = gen_calls w"
  "record_writes (set_pc i p w) = record_writes w"
  by (simp_all add: set_pc_def)

lemma absent_set_pc [simp]: "absent today (set_pc i p w) = absent today w"
  by (simp add: absent_def)

lemma nth_update_any: "j < length ts \<Longrightarrow> ts[i := x] ! j = (if i = j then x else ts ! j)"
  by (cases "i < length ts") (auto simp: nth_list_update)

lemma kinds_update:
  "list_all (\<lambda>t. kind t = k) ts \<Longrightarrow> list_all (\<lambda>t. kind t = k) (ts[i := (ts ! i)\<lparr>pc := p\<rparr>])"
  by (auto simp: list_all_length nth_update_any)

lemma free_with_set:
  "free_with False ts S \<Longrightarrow> p \<in> S' \<Longrightarrow> S \<subseteq> S' \<Longrightarrow>
   free_with False (ts[i := (ts ! i)\<lparr>pc := p\<rparr>]) S'"
  by (auto simp: free_with_def nth_update_any)








lemma free_cases: "free_with lk ts S \<Longrightarrow> i < length ts \<Longrightarrow> pc (ts ! i) \<in> S \<and> \<not> lk"
  by (auto simp: free_with_def)










lemma kind_lazy_nth:
  "list_all (\<lambda>t. kind t = Lazy) ts \<Longrightarrow> i < length ts \<Longrightarrow> kind (ts ! i) = Lazy"
  by (simp add: list_all_length)













lemma step_length [simp]: "length (tasks (step e today i w)) = length (tasks w)"
  by (simp add: step_def no_record_def split: pc.splits option.splits)

lemma run_length [simp]: "length (tasks (run e today order w)) = length (tasks w)"
  unfolding run_def by (induction order arbitrary: w) simp_all


lemma start_world_fields [simp]:
  "schedule_data (start_world d f ks) = d"
  "failed_dates (start_world d f ks) = f"
  "generation_lock (start_world d f ks) = False"
  "gen_calls (start_world d f ks) = 0"
  "record_writes (start_world d f ks) = 0"
  "tasks (start_world d f ks) = map (\<lambda>k. \<lparr>kind = k, pc = Start\<rparr>) ks"
  by (simp_all add: start_world_def)







lemma lazy_check_fails:
  assumes "\<not> absent today w" "i < length (tasks w)" "kind (tasks w ! i) = Lazy"
    "pc (tasks w ! i) = Start \<or> pc (tasks w ! i) = WaitLock \<and> \<not> generation_lock w"
  shows "step e today i w = set_pc i Done w"
  using assms by (auto simp: step_def)

lemma settled_inv_step:
  assumes inv: "settled_inv w0 w" and na: "\<not> absent today w0"
  shows "settled_inv w0 (step e today i w)"
proof (cases "i < length (tasks w)")
  case False
  then show ?thesis using inv by (simp add: step_def)
next
  case True
  from inv have k: "list_all (\<lambda>t. kind t = Lazy) (tasks w)"
    and sh: "free_with (generation_lock w) (tasks w) {Start, Done}"
    and eq: "schedule_data w = schedule_data w0" "failed_dates w = failed_dates w0"
      "gen_calls w = gen_calls w0" "record_writes w = record_writes w0"
    by (simp_all add: settled_inv_def)
  from na eq have na': "\<not> absent today w" by (simp add: absent_def)
  from free_cases[OF sh True] have lk: "\<not> generation_lock w"
    and pcs: "pc (tasks w ! i) = Start \<or> pc (tasks w ! i) = Done" by auto
  from sh lk have sh': "free_with False (tasks w) {Start, Done}" by simp
  from pcs show ?thesis
  proof
    assume "pc (tasks w ! i) = Done"
    then show ?thesis using True inv by (simp add: step_def)
  next
    assume p: "pc (tasks w ! i) = Start"
    have "step e today i w = set_pc i Done w"
      by (rule lazy_check_fails[OF na' True kind_lazy_nth[OF k True]]) (simp add: p)
    moreover have "free_with False ((tasks w)[i := (tasks w ! i)\<lparr>pc := Done\<rparr>]) {Start, Done}"
      by (rule free_with_set[OF sh']) auto
    ultimately show ?thesis
      using k eq lk by (simp add: settled_inv_def kinds_update)
  qed
qed

lemma settled_inv_run:
  "settled_inv w0 w \<Longrightarrow> \<not> absent today w0 \<Longrightarrow> settled_inv w0 (run e today order w)"
  unfolding run_def by (induction order arbitrary: w) (simp_all add: settled_inv_step)

lemma settled_inv_start: "settled_inv (start_world d f (replicate n Lazy)) (start_world d f (replicate n Lazy))"
  by (simp add: settled_inv_def list_all_length free_with_def)

lemma settled_run_unchanged:
  assumes "today \<in> dom d \<or> today \<in> f"
  shows "schedule_data (run e today order (start_world d f (replicate n Lazy))) = d \<and>
         failed_dates (run e today order (start_world d f (replicate n Lazy))) = f \<and>
         gen_calls (run e today order (start_world d f (replicate n Lazy))) = 0 \<and>
         record_writes (run e today order (start_world d f (replicate n Lazy))) = 0"
proof -
  have "\<not> absent today (start_world d f (replicate n Lazy))"
    using assms by (auto simp: absent_def)
  from settled_inv_run[OF settled_inv_start this, of e order] show ?thesis
    by (simp add: settled_inv_def)
qed

lemma failed_mark_stays:
  "today \<in> failed_dates w \<Longrightarrow> today \<in> failed_dates (step e today i w)"
  by (auto simp: step_def no_record_def split: pc.splits option.splits)



subsection \<open>An order in which all lazy triggers finish\<close>





subsection \<open>The claims about the triggers\<close>








text \<open>
  Claim C3. On a day that is in \<open>failed_dates\<close>, a lazy trigger that starts (or that
  gets the lock and checks again) ends at once: no call of the generator, the store and
  the set of failed days as they were. No step of any task takes the day out of the
  set. So lazy triggers alone, however many and in any order, leave the store, the set
  and the number of generator calls untouched.
\<close>

theorem failed_day_not_retried:
  "(today \<in> failed_dates w \<and> i < length (tasks w) \<and> kind (tasks w ! i) = Lazy \<and>
      (pc (tasks w ! i) = Start \<or> pc (tasks w ! i) = WaitLock \<and> \<not> generation_lock w)
      \<longrightarrow> gen_calls (step e today i w) = gen_calls w \<and>
          schedule_data (step e today i w) = schedule_data w \<and>
          failed_dates (step e today i w) = failed_dates w \<and>
          pc (tasks (step e today i w) ! i) = Done) \<and>
   (today \<in> failed_dates w \<longrightarrow> today \<in> failed_dates (step e today j w)) \<and>
   (today \<in> f
      \<longrightarrow> gen_calls (run e today order (start_world d f (replicate n Lazy))) = 0 \<and>
          schedule_data (run e today order (start_world d f (replicate n Lazy))) = d \<and>
          failed_dates (run e today order (start_world d f (replicate n Lazy))) = f)"
proof -
  have a: "step e today i w = set_pc i Done w"
    if "today \<in> failed_dates w" "i < length (tasks w)" "kind (tasks w ! i) = Lazy"
      "pc (tasks w ! i) = Start \<or> pc (tasks w ! i) = WaitLock \<and> \<not> generation_lock w"
    by (rule lazy_check_fails) (use that in \<open>simp_all add: absent_def\<close>)
  have a': "gen_calls (step e today i w) = gen_calls w \<and>
          schedule_data (step e today i w) = schedule_data w \<and>
          failed_dates (step e today i w) = failed_dates w \<and>
          pc (tasks (step e today i w) ! i) = Done"
    if "today \<in> failed_dates w" "i < length (tasks w)" "kind (tasks w ! i) = Lazy"
      "pc (tasks w ! i) = Start \<or> pc (tasks w ! i) = WaitLock \<and> \<not> generation_lock w"
    unfolding a[OF that] using that(2) by simp
  have c: "gen_calls (run e today order (start_world d f (replicate n Lazy))) = 0 \<and>
          schedule_data (run e today order (start_world d f (replicate n Lazy))) = d \<and>
          failed_dates (run e today order (start_world d f (replicate n Lazy))) = f"
    if "today \<in> f"
    using settled_run_unchanged[of today d f e order n] that by simp
  from a' failed_mark_stays[of today w e j] c show ?thesis by blast
qed

theorem failed_day_not_retried_witness:
  "gen_calls (run example_env the_day [0, 1, 2, 0] (start_world Map.empty {the_day} (replicate 3 Lazy))) = 0 \<and>
   schedule_data (run example_env the_day [0, 1, 2, 0] (start_world Map.empty {the_day} (replicate 3 Lazy)))
     = Map.empty \<and>
   failed_dates (run example_env the_day [0, 1, 2, 0] (start_world Map.empty {the_day} (replicate 3 Lazy)))
     = {the_day} \<and>
   all_done (run example_env the_day [0, 1, 2, 0] (start_world Map.empty {the_day} (replicate 3 Lazy)))"
proof -
  have dn: "all_done (run example_env the_day [0, 1, 2, 0]
      (start_world Map.empty {the_day} (replicate 3 Lazy)))"
    by code_simp
  from failed_day_not_retried[of the_day _ _ example_env _ "{the_day}" "[0, 1, 2, 0]" Map.empty 3] dn
  show ?thesis by simp
qed

end
